theory Spec2Isabelle
  imports Complex_Main "HOL-Library.Sublist"
begin

section \<open>Strings: substring test and lower-casing\<close>

text \<open>
  In the endpoints, messages are sequences of code points below 256 (one \<^typ>\<open>char\<close>
  each); messages of arbitrary code points are the subject of a section of their own. Python's
  \<^verbatim>\<open>needle in msg\<close> on strings is the contiguous-substring test; \<^verbatim>\<open>str.lower()\<close>
  on this range maps the code points 65..90, 192..214 and 216..222 to the code point 32
  above and leaves every other one alone.
\<close>

fun starts_with :: "'a list \<Rightarrow> 'a list \<Rightarrow> bool" where
  "starts_with [] hay = True"
| "starts_with (n # ns) [] = False"
| "starts_with (n # ns) (h # hs) = (n = h \<and> starts_with ns hs)"

fun str_in :: "'a list \<Rightarrow> 'a list \<Rightarrow> bool" where
  "str_in needle [] = (needle = [])"
| "str_in needle (h # hs) = (starts_with needle (h # hs) \<or> str_in needle hs)"

definition is_upper :: "char \<Rightarrow> bool" where
  "is_upper c =
     (let n = (of_char c :: nat)
      in (65 \<le> n \<and> n \<le> 90) \<or> (192 \<le> n \<and> n \<le> 214) \<or> (216 \<le> n \<and> n \<le> 222))"

definition lower_char :: "char \<Rightarrow> char" where
  "lower_char c = (if is_upper c then char_of ((of_char c :: nat) + 32) else c)"

definition lower :: "string \<Rightarrow> string" where
  "lower s = map lower_char s"

section \<open>HTTP exceptions and the outcome of a call\<close>

record http_exception =
  status_code :: nat
  detail :: string
  headers :: "(string \<times> string) list"

definition HTTPException :: "nat \<Rightarrow> string \<Rightarrow> http_exception" where
  "HTTPException sc d = \<lparr>status_code = sc, detail = d, headers = []\<rparr>"

text \<open>
  The other exceptions: \<^verbatim>\<open>TypeError\<close>, the error of \<^verbatim>\<open>response.json()\<close>, and
  \<^verbatim>\<open>pyodbc.Error\<close> with its \<^verbatim>\<open>str(e)\<close>.
\<close>

datatype py_error = TypeError | JSONDecodeError | PyodbcError string

datatype 'a outcome = Returns 'a | RaisesHTTP http_exception | RaisesOther py_error

section \<open>The error classifier\<close>

text \<open>
  \<^verbatim>\<open>validation_checking(msg)\<close> raises on every path; the model returns the exception
  it raises. The branches are in the order of the source.
\<close>

definition validation_checking :: "string \<Rightarrow> http_exception" where
  "validation_checking msg =
     (if str_in ''user not found'' msg then
        HTTPException 404 ''User not found''
      else if str_in ''new activity not found'' msg then
        HTTPException 404 ''New Activity not found''
      else if str_in ''old activity not found'' msg then
        HTTPException 404 ''Old Activity not found for this user''
      else if str_in ''activity not found'' msg then
        HTTPException 404 ''Activity not found''
      else if str_in ''activity already exists for this user'' msg then
        HTTPException 409 ''Activity already exists for this user.''
      else if str_in ''old activity not found for this user'' msg then
        HTTPException 409 ''Old activity not found for this user.''
      else if str_in ''email already exists'' msg then
        HTTPException 409 ''Email already exists.''
      else if str_in ''username already exists'' msg then
        HTTPException 409 ''Username already exists''
      else if str_in ''date_of_birth'' msg then
        HTTPException 409 ''Invalid date of birth, must be at least 13 years old.''
      else if str_in ''phone_number'' msg then
        HTTPException 409 ''Invalid phone number format, the number must start with +.''
      else
        HTTPException 500 ''Internal server error'')"

section \<open>The credential verifier\<close>

record HTTPBasicCredentials =
  username :: string
  password :: string

text \<open>The values \<^verbatim>\<open>response.json()\<close> can return.\<close>

datatype json =
  JNull | JBool bool | JInt int | JFloat real | JStr string
| JList "json list" | JObj "(string \<times> json) list"

text \<open>
  What the outbound \<^verbatim>\<open>requests.post\<close> does: it raises a
  \<^verbatim>\<open>requests.RequestException\<close> (timeout, connection error), or it returns a response
  with a status code and a body that \<^verbatim>\<open>response.json()\<close> either parses or rejects.
\<close>

datatype body = Parsed json | Unparseable

datatype auth_reply = TransportFailure | Response nat body

record principal =
  email :: string
  authenticated :: bool

definition unauthorized :: "string \<Rightarrow> http_exception" where
  "unauthorized d =
     \<lparr>status_code = 401, detail = d, headers = [(''WWW-Authenticate'', ''Basic'')]\<rparr>"

text \<open>
  The error \<^verbatim>\<open>response.json()\<close> raises on an unparseable body belongs to the
  \<^verbatim>\<open>requests\<close> library, which is not part of the repository: whether it is a
  \<^verbatim>\<open>RequestException\<close> (and so caught by the handler of the source) is the parameter
  \<open>json_error_is_request_exception\<close>.
\<close>

definition verify_credentials ::
  "bool \<Rightarrow> HTTPBasicCredentials \<Rightarrow> auth_reply \<Rightarrow> principal outcome" where
  "verify_credentials json_error_is_request_exception credentials reply =
     (case reply of
        TransportFailure \<Rightarrow>
          RaisesHTTP (HTTPException 503 ''Authentication service unavailable'')
      | Response code b \<Rightarrow>
          if code = 200 then
            (case b of
               Unparseable \<Rightarrow>
                 if json_error_is_request_exception
                 then RaisesHTTP (HTTPException 503 ''Authentication service unavailable'')
                 else RaisesOther JSONDecodeError
             | Parsed result \<Rightarrow>
                 (case result of
                    JList xs \<Rightarrow>
                      if 2 \<le> length xs then
                        if xs ! 0 = JStr ''Verified'' \<and> xs ! 1 = JStr ''True''
                        then Returns \<lparr>email = username credentials, authenticated = True\<rparr>
                        else RaisesHTTP (unauthorized ''Invalid credentials'')
                      else RaisesHTTP (unauthorized ''Invalid credentials'')
                  | _ \<Rightarrow> RaisesHTTP (unauthorized ''Invalid credentials'')))
          else RaisesHTTP (unauthorized ''Authentication failed''))"

section \<open>The database and the request bodies\<close>

datatype sqlval = SNull | SInt int | SStr string | SDate int int int

definition opt_str :: "string option \<Rightarrow> sqlval" where
  "opt_str v = (case v of None \<Rightarrow> SNull | Some s \<Rightarrow> SStr s)"

definition opt_int :: "int option \<Rightarrow> sqlval" where
  "opt_int v = (case v of None \<Rightarrow> SNull | Some i \<Rightarrow> SInt i)"

definition opt_date :: "(int \<times> int \<times> int) option \<Rightarrow> sqlval" where
  "opt_date v = (case v of None \<Rightarrow> SNull | Some (y, m, d) \<Rightarrow> SDate y m d)"

text \<open>
  The request bodies. The fields carry the class name as a prefix, since several
  classes of the source share their field names.
\<close>

record UserCreate =
  uc_username :: string
  uc_email :: "string option"
  uc_phone_number :: "string option"
  uc_location :: "string option"
  uc_date_of_birth :: "(int \<times> int \<times> int) option"

record UpdateUser =
  uu_username :: "string option"
  uu_email :: "string option"
  uu_phone_number :: "string option"
  uu_location :: "string option"
  uu_date_of_birth :: "(int \<times> int \<times> int) option"

record Activity_Request =
  activity_ID :: int

record UpdateUserPreferences =
  new_activity_ID :: "int option"
  old_activity_ID :: "int option"

text \<open>
  What the database does during one request. \<^verbatim>\<open>pyodbc.connect\<close> succeeds or
  raises; \<^verbatim>\<open>cursor.execute\<close> returns or raises, a \<^verbatim>\<open>pyodbc.Error\<close> with the
  text of its \<^verbatim>\<open>str(e)\<close> or any other exception; \<^verbatim>\<open>cursor.fetchone()\<close> returns
  a row, returns \<^verbatim>\<open>None\<close> when the result set is empty, or raises likewise;
  \<^verbatim>\<open>cursor.description\<close> gives the column names. These are the calls the source
  places under \<^verbatim>\<open>try\<close>. In the endpoints of the next sections
  \<^verbatim>\<open>conn.cursor()\<close>, \<^verbatim>\<open>conn.rollback()\<close>, \<^verbatim>\<open>cursor.close()\<close> and
  \<^verbatim>\<open>conn.close()\<close> return normally; a later section gives the endpoints with these
  calls allowed to raise too.
\<close>

datatype fetch_result = FetchRow "sqlval list" | FetchNone | FetchError py_error

record db_env =
  connect_fails :: bool
  execute_error :: "py_error option"
  fetchone_result :: fetch_result
  description :: "string list"

text \<open>The calls a handler makes on the database, in the order it makes them.\<close>

datatype db_event =
  Connect | Cursor | Execute string "sqlval list" | FetchOne | Rollback
| CursorClose | ConnClose


datatype payload = Message string | UserData "(string \<times> sqlval) list"

text \<open>
  \<^verbatim>\<open>dict(pairs)\<close>: keys in the order of their first occurrence, the last value of a
  repeated key wins.
\<close>

fun dict_set :: "'k \<Rightarrow> 'v \<Rightarrow> ('k \<times> 'v) list \<Rightarrow> ('k \<times> 'v) list" where
  "dict_set k v [] = [(k, v)]"
| "dict_set k v ((k', v') # d) = (if k = k' then (k, v) # d else (k', v') # dict_set k v d)"

definition dict :: "('k \<times> 'v) list \<Rightarrow> ('k \<times> 'v) list" where
  "dict pairs = fold (\<lambda>(k, v) d. dict_set k v d) pairs []"

section \<open>Sequencing, \<^verbatim>\<open>try\<close>/\<open>except\<close> and \<^verbatim>\<open>try\<close>/\<open>finally\<close>\<close>

text \<open>
  A computation is the outcome of a block together with the database calls it made.
  \<open>then_do\<close> is statement sequencing: the rest runs only when the first part returned.
  \<open>try_except\<close> is \<^verbatim>\<open>except pyodbc.Error as e\<close>: no other exception is caught.
  \<open>try_finally\<close> runs the \<^verbatim>\<open>finally\<close> block after the body whatever its outcome;
  an exception of the \<^verbatim>\<open>finally\<close> block replaces the outcome of the body.
\<close>

type_synonym 'a comp = "'a outcome \<times> db_event list"

definition call :: "db_event \<Rightarrow> unit comp" where
  "call ev = (Returns (), [ev])"

definition then_do :: "'a comp \<Rightarrow> ('a \<Rightarrow> 'b comp) \<Rightarrow> 'b comp" where
  "then_do r k =
     (case r of
        (Returns v, t) \<Rightarrow> (case k v of (res, t') \<Rightarrow> (res, t @ t'))
      | (RaisesHTTP e, t) \<Rightarrow> (RaisesHTTP e, t)
      | (RaisesOther x, t) \<Rightarrow> (RaisesOther x, t))"

definition try_except :: "'a comp \<Rightarrow> (string \<Rightarrow> 'a comp) \<Rightarrow> 'a comp" where
  "try_except r handler =
     (case r of
        (RaisesOther (PyodbcError e), t) \<Rightarrow> (case handler e of (res, t') \<Rightarrow> (res, t @ t'))
      | _ \<Rightarrow> r)"

definition try_finally :: "'a comp \<Rightarrow> unit comp \<Rightarrow> 'a comp" where
  "try_finally r fin =
     (case fin of
        (Returns u, t') \<Rightarrow> (fst r, snd r @ t')
      | (RaisesHTTP e, t') \<Rightarrow> (RaisesHTTP e, snd r @ t')
      | (RaisesOther x, t') \<Rightarrow> (RaisesOther x, snd r @ t'))"

section \<open>The database calls\<close>

definition get_db_connection :: "db_env \<Rightarrow> unit comp" where
  "get_db_connection env =
     (if connect_fails env
      then (RaisesHTTP (HTTPException 503 ''Database connection failed''), [Connect])
      else (Returns (), [Connect]))"

definition cursor_execute :: "db_env \<Rightarrow> string \<Rightarrow> sqlval list \<Rightarrow> unit comp" where
  "cursor_execute env proc args =
     (case execute_error env of
        None \<Rightarrow> (Returns (), [Execute proc args])
      | Some e \<Rightarrow> (RaisesOther e, [Execute proc args]))"

definition cursor_fetchone :: "db_env \<Rightarrow> (sqlval list) option comp" where
  "cursor_fetchone env =
     (case fetchone_result env of
        FetchRow row \<Rightarrow> (Returns (Some row), [FetchOne])
      | FetchNone \<Rightarrow> (Returns None, [FetchOne])
      | FetchError e \<Rightarrow> (RaisesOther e, [FetchOne]))"

text \<open>\<^verbatim>\<open>zip(columns, row)\<close>: a row that is \<^verbatim>\<open>None\<close> is not iterable.\<close>

definition zip_row :: "string list \<Rightarrow> (sqlval list) option \<Rightarrow> (string \<times> sqlval) list comp" where
  "zip_row columns row =
     (case row of
        None \<Rightarrow> (RaisesOther TypeError, [])
      | Some r \<Rightarrow> (Returns (zip columns r), []))"

definition close_all :: "unit comp" where
  "close_all = then_do (call CursorClose) (\<lambda>u. call ConnClose)"

section \<open>The endpoints\<close>

definition create_user :: "UserCreate \<Rightarrow> principal \<Rightarrow> db_env \<Rightarrow> payload comp" where
  "create_user user current_user env =
     then_do (get_db_connection env) (\<lambda>conn.
     then_do (call Cursor) (\<lambda>cursor.
       try_finally
         (try_except
            (then_do
               (cursor_execute env ''CW2.Create_User''
                  [SStr (uc_username user), opt_str (uc_email user),
                   opt_str (uc_phone_number user), opt_str (uc_location user),
                   opt_date (uc_date_of_birth user)])
               (\<lambda>u. (Returns (Message ''User created successfully''), [])))
            (\<lambda>e. then_do (call Rollback)
               (\<lambda>u. (RaisesHTTP (validation_checking (lower e)), []))))
         close_all))"

definition read_user :: "int \<Rightarrow> principal \<Rightarrow> db_env \<Rightarrow> payload comp" where
  "read_user user_id current_user env =
     then_do (get_db_connection env) (\<lambda>conn.
     then_do (call Cursor) (\<lambda>cursor.
       try_finally
         (try_except
            (then_do (cursor_execute env ''CW2.Read_User'' [SInt user_id]) (\<lambda>u.
             then_do (cursor_fetchone env) (\<lambda>row.
             then_do (zip_row (description env) row) (\<lambda>pairs.
               (Returns (UserData (dict pairs)), [])))))
            (\<lambda>e.
               if str_in ''user not found'' (lower e)
               then (RaisesHTTP (HTTPException 404 ''User not found''), [])
               else (RaisesHTTP (HTTPException 500 ''Failed to retrieve user profile''), [])))
         close_all))"

definition update_user :: "int \<Rightarrow> UpdateUser \<Rightarrow> principal \<Rightarrow> db_env \<Rightarrow> payload comp" where
  "update_user user_id user current_user env =
     then_do (get_db_connection env) (\<lambda>conn.
     then_do (call Cursor) (\<lambda>cursor.
       try_finally
         (try_except
            (then_do
               (cursor_execute env ''CW2.Update_User''
                  [SInt user_id, opt_str (uu_username user), opt_str (uu_email user),
                   opt_str (uu_phone_number user), opt_str (uu_location user),
                   opt_date (uu_date_of_birth user)])
               (\<lambda>u. (Returns (Message ''User updated successfully''), [])))
            (\<lambda>e. (RaisesHTTP (validation_checking (lower e)), [])))
         close_all))"

definition create_user_preferences ::
  "int \<Rightarrow> Activity_Request \<Rightarrow> principal \<Rightarrow> db_env \<Rightarrow> payload comp" where
  "create_user_preferences user_id body current_user env =
     then_do (get_db_connection env) (\<lambda>conn.
     then_do (call Cursor) (\<lambda>cursor.
       try_finally
         (try_except
            (then_do
               (cursor_execute env ''CW2.Add_User_Activity''
                  [SInt user_id, SInt (activity_ID body)])
               (\<lambda>u. (Returns (Message ''User Preferences created successfully''), [])))
            (\<lambda>e. (RaisesHTTP (validation_checking (lower e)), [])))
         close_all))"

definition update_user_preferences ::
  "int \<Rightarrow> UpdateUserPreferences \<Rightarrow> principal \<Rightarrow> db_env \<Rightarrow> payload comp" where
  "update_user_preferences user_id user current_user env =
     then_do (get_db_connection env) (\<lambda>conn.
     then_do (call Cursor) (\<lambda>cursor.
       try_finally
         (try_except
            (then_do
               (cursor_execute env ''CW2.Update_User_Activity''
                  [SInt user_id, opt_int (new_activity_ID user), opt_int (old_activity_ID user)])
               (\<lambda>u. (Returns (Message ''User Preferences updated successfully''), [])))
            (\<lambda>e. (RaisesHTTP (validation_checking (lower e)), [])))
         close_all))"

definition delete_user :: "int \<Rightarrow> principal \<Rightarrow> db_env \<Rightarrow> payload comp" where
  "delete_user user_id current_user env =
     then_do (get_db_connection env) (\<lambda>conn.
     then_do (call Cursor) (\<lambda>cursor.
       try_finally
         (try_except
            (then_do (cursor_execute env ''CW2.Delete_User'' [SInt user_id])
               (\<lambda>u. (Returns (Message ''User deleted successfully''), [])))
            (\<lambda>e.
               if str_in ''user not found'' (lower e)
               then (RaisesHTTP (HTTPException 404 ''User not found''), [])
               else (RaisesHTTP (HTTPException 500 ''Failed to delete user profile''), [])))
         close_all))"

text \<open>
  A request to one of the six routes. Every route declares
  \<^verbatim>\<open>current_user: dict = Depends(verify_credentials)\<close>: the framework calls
  \<^verbatim>\<open>verify_credentials\<close> first and calls the route's function with its result; when the
  dependency raises, the route's function is not called.
\<close>

datatype request =
  CreateUser UserCreate
| ReadUser int
| UpdateUserReq int UpdateUser
| CreateUserPreferences int Activity_Request
| UpdateUserPreferencesReq int UpdateUserPreferences
| DeleteUser int

fun handler :: "request \<Rightarrow> principal \<Rightarrow> db_env \<Rightarrow> payload comp" where
  "handler (CreateUser user) = create_user user"
| "handler (ReadUser user_id) = read_user user_id"
| "handler (UpdateUserReq user_id user) = update_user user_id user"
| "handler (CreateUserPreferences user_id body) = create_user_preferences user_id body"
| "handler (UpdateUserPreferencesReq user_id user) = update_user_preferences user_id user"
| "handler (DeleteUser user_id) = delete_user user_id"

definition endpoint ::
  "bool \<Rightarrow> HTTPBasicCredentials \<Rightarrow> auth_reply \<Rightarrow> request \<Rightarrow> db_env \<Rightarrow> payload comp" where
  "endpoint json_error_is_request_exception credentials reply req env =
     then_do (verify_credentials json_error_is_request_exception credentials reply, [])
       (\<lambda>current_user. handler req current_user env)"

section \<open>The endpoints when every database call may raise\<close>

text \<open>
  \<^verbatim>\<open>conn.cursor()\<close> stands before the \<^verbatim>\<open>try\<close> in each of the six functions,
  \<^verbatim>\<open>conn.rollback()\<close> stands in the \<^verbatim>\<open>except\<close> block of \<^verbatim>\<open>create_user\<close>, and
  \<^verbatim>\<open>cursor.close()\<close> comes before \<^verbatim>\<open>conn.close()\<close> in every \<^verbatim>\<open>finally\<close>
  block. Each of these calls can raise as well; \<open>db_faults\<close> says which of them does, and
  with what. The definitions below are the endpoints once more, with these calls allowed
  to raise; with \<open>no_faults\<close> they are the definitions above.
\<close>

record db_faults =
  cursor_error :: "py_error option"
  rollback_error :: "py_error option"
  cursor_close_error :: "py_error option"
  conn_close_error :: "py_error option"

definition no_faults :: db_faults where
  "no_faults = \<lparr>cursor_error = None, rollback_error = None,
                  cursor_close_error = None, conn_close_error = None\<rparr>"

definition call_may_raise :: "py_error option \<Rightarrow> db_event \<Rightarrow> unit comp" where
  "call_may_raise err ev =
     (case err of
        None \<Rightarrow> (Returns (), [ev])
      | Some x \<Rightarrow> (RaisesOther x, [ev]))"

definition close_all_full :: "db_faults \<Rightarrow> unit comp" where
  "close_all_full flt =
     then_do (call_may_raise (cursor_close_error flt) CursorClose)
       (\<lambda>u. call_may_raise (conn_close_error flt) ConnClose)"

definition create_user_full ::
  "db_faults \<Rightarrow> UserCreate \<Rightarrow> principal \<Rightarrow> db_env \<Rightarrow> payload comp" where
  "create_user_full flt user current_user env =
     then_do (get_db_connection env) (\<lambda>conn.
     then_do (call_may_raise (cursor_error flt) Cursor) (\<lambda>cursor.
       try_finally
         (try_except
            (then_do
               (cursor_execute env ''CW2.Create_User''
                  [SStr (uc_username user), opt_str (uc_email user),
                   opt_str (uc_phone_number user), opt_str (uc_location user),
                   opt_date (uc_date_of_birth user)])
               (\<lambda>u. (Returns (Message ''User created successfully''), [])))
            (\<lambda>e. then_do (call_may_raise (rollback_error flt) Rollback)
               (\<lambda>u. (RaisesHTTP (validation_checking (lower e)), []))))
         (close_all_full flt)))"

definition read_user_full ::
  "db_faults \<Rightarrow> int \<Rightarrow> principal \<Rightarrow> db_env \<Rightarrow> payload comp" where
  "read_user_full flt user_id current_user env =
     then_do (get_db_connection env) (\<lambda>conn.
     then_do (call_may_raise (cursor_error flt) Cursor) (\<lambda>cursor.
       try_finally
         (try_except
            (then_do (cursor_execute env ''CW2.Read_User'' [SInt user_id]) (\<lambda>u.
             then_do (cursor_fetchone env) (\<lambda>row.
             then_do (zip_row (description env) row) (\<lambda>pairs.
               (Returns (UserData (dict pairs)), [])))))
            (\<lambda>e.
               if str_in ''user not found'' (lower e)
               then (RaisesHTTP (HTTPException 404 ''User not found''), [])
               else (RaisesHTTP (HTTPException 500 ''Failed to retrieve user profile''), [])))
         (close_all_full flt)))"

definition update_user_full ::
  "db_faults \<Rightarrow> int \<Rightarrow> UpdateUser \<Rightarrow> principal \<Rightarrow> db_env \<Rightarrow> payload comp" where
  "update_user_full flt user_id user current_user env =
     then_do (get_db_connection env) (\<lambda>conn.
     then_do (call_may_raise (cursor_error flt) Cursor) (\<lambda>cursor.
       try_finally
         (try_except
            (then_do
               (cursor_execute env ''CW2.Update_User''
                  [SInt user_id, opt_str (uu_username user), opt_str (uu_email user),
                   opt_str (uu_phone_number user), opt_str (uu_location user),
                   opt_date (uu_date_of_birth user)])
               (\<lambda>u. (Returns (Message ''User updated successfully''), [])))
            (\<lambda>e. (RaisesHTTP (validation_checking (lower e)), [])))
         (close_all_full flt)))"

definition create_user_preferences_full ::
  "db_faults \<Rightarrow> int \<Rightarrow> Activity_Request \<Rightarrow> principal \<Rightarrow> db_env \<Rightarrow> payload comp" where
  "create_user_preferences_full flt user_id body current_user env =
     then_do (get_db_connection env) (\<lambda>conn.
     then_do (call_may_raise (cursor_error flt) Cursor) (\<lambda>cursor.
       try_finally
         (try_except
            (then_do
               (cursor_execute env ''CW2.Add_User_Activity''
                  [SInt user_id, SInt (activity_ID body)])
               (\<lambda>u. (Returns (Message ''User Preferences created successfully''), [])))
            (\<lambda>e. (RaisesHTTP (validation_checking (lower e)), [])))
         (close_all_full flt)))"

definition update_user_preferences_full ::
  "db_faults \<Rightarrow> int \<Rightarrow> UpdateUserPreferences \<Rightarrow> principal \<Rightarrow> db_env \<Rightarrow> payload comp" where
  "update_user_preferences_full flt user_id user current_user env =
     then_do (get_db_connection env) (\<lambda>conn.
     then_do (call_may_raise (cursor_error flt) Cursor) (\<lambda>cursor.
       try_finally
         (try_except
            (then_do
               (cursor_execute env ''CW2.Update_User_Activity''
                  [SInt user_id, opt_int (new_activity_ID user), opt_int (old_activity_ID user)])
               (\<lambda>u. (Returns (Message ''User Preferences updated successfully''), [])))
            (\<lambda>e. (RaisesHTTP (validation_checking (lower e)), [])))
         (close_all_full flt)))"

definition delete_user_full ::
  "db_faults \<Rightarrow> int \<Rightarrow> principal \<Rightarrow> db_env \<Rightarrow> payload comp" where
  "delete_user_full flt user_id current_user env =
     then_do (get_db_connection env) (\<lambda>conn.
     then_do (call_may_raise (cursor_error flt) Cursor) (\<lambda>cursor.
       try_finally
         (try_except
            (then_do (cursor_execute env ''CW2.Delete_User'' [SInt user_id])
               (\<lambda>u. (Returns (Message ''User deleted successfully''), [])))
            (\<lambda>e.
               if str_in ''user not found'' (lower e)
               then (RaisesHTTP (HTTPException 404 ''User not found''), [])
               else (RaisesHTTP (HTTPException 500 ''Failed to delete user profile''), [])))
         (close_all_full flt)))"

fun handler_full :: "db_faults \<Rightarrow> request \<Rightarrow> principal \<Rightarrow> db_env \<Rightarrow> payload comp" where
  "handler_full flt (CreateUser user) = create_user_full flt user"
| "handler_full flt (ReadUser user_id) = read_user_full flt user_id"
| "handler_full flt (UpdateUserReq user_id user) = update_user_full flt user_id user"
| "handler_full flt (CreateUserPreferences user_id body) =
     create_user_preferences_full flt user_id body"
| "handler_full flt (UpdateUserPreferencesReq user_id user) =
     update_user_preferences_full flt user_id user"
| "handler_full flt (DeleteUser user_id) = delete_user_full flt user_id"

definition endpoint_full ::
  "db_faults \<Rightarrow> bool \<Rightarrow> HTTPBasicCredentials \<Rightarrow> auth_reply \<Rightarrow> request \<Rightarrow> db_env
     \<Rightarrow> payload comp" where
  "endpoint_full flt json_error_is_request_exception credentials reply req env =
     then_do (verify_credentials json_error_is_request_exception credentials reply, [])
       (\<lambda>current_user. handler_full flt req current_user env)"

section \<open>Messages as sequences of Unicode code points\<close>

text \<open>
  A Python \<^verbatim>\<open>str\<close> is a sequence of code points of any size; here a code point is a
  natural number. \<open>latin_lower\<close> and \<open>latin_upper\<close> are what \<^verbatim>\<open>str.lower()\<close> and
  \<^verbatim>\<open>str.upper()\<close> give for a single code point below 384 (Basic Latin, Latin-1
  Supplement, Latin Extended-A); the rows of the two tables from 384 on are the
  parameter \<open>beyond\<close>. (\<^verbatim>\<open>str.lower()\<close> works code point by code point, but for
  U+03A3, which lies in the part left to the parameter.)
\<close>

definition cps :: "string \<Rightarrow> nat list" where
  "cps s = map of_char s"

definition latin_lower :: "nat \<Rightarrow> nat list" where
  "latin_lower c =
     (if (65 \<le> c \<and> c \<le> 90) \<or> (192 \<le> c \<and> c \<le> 214) \<or> (216 \<le> c \<and> c \<le> 222) then [c + 32]
      else if c = 304 then [105, 775]
      else if c = 376 then [255]
      else if ((256 \<le> c \<and> c \<le> 311) \<or> (330 \<le> c \<and> c \<le> 375)) \<and> even c then [c + 1]
      else if ((313 \<le> c \<and> c \<le> 328) \<or> (377 \<le> c \<and> c \<le> 382)) \<and> odd c then [c + 1]
      else [c])"

definition latin_upper :: "nat \<Rightarrow> nat list" where
  "latin_upper c =
     (if (97 \<le> c \<and> c \<le> 122) \<or> (224 \<le> c \<and> c \<le> 246) \<or> (248 \<le> c \<and> c \<le> 254) then [c - 32]
      else if c = 181 then [924]
      else if c = 223 then [83, 83]
      else if c = 255 then [376]
      else if c = 305 then [73]
      else if c = 329 then [700, 78]
      else if c = 383 then [83]
      else if ((257 \<le> c \<and> c \<le> 311) \<or> (331 \<le> c \<and> c \<le> 375)) \<and> odd c then [c - 1]
      else if ((314 \<le> c \<and> c \<le> 328) \<or> (378 \<le> c \<and> c \<le> 382)) \<and> even c then [c - 1]
      else [c])"

definition lower_cp :: "(nat \<Rightarrow> nat list) \<Rightarrow> nat \<Rightarrow> nat list" where
  "lower_cp beyond c = (if c < 384 then latin_lower c else beyond c)"

definition upper_cp :: "(nat \<Rightarrow> nat list) \<Rightarrow> nat \<Rightarrow> nat list" where
  "upper_cp beyond c = (if c < 384 then latin_upper c else beyond c)"


definition lower_u :: "(nat \<Rightarrow> nat list) \<Rightarrow> nat list \<Rightarrow> nat list" where
  "lower_u beyond m = concat (map (lower_cp beyond) m)"

text \<open>\<^verbatim>\<open>validation_checking\<close> on a message of code points.\<close>

definition validation_checking_u :: "nat list \<Rightarrow> http_exception" where
  "validation_checking_u msg =
     (if str_in (cps ''user not found'') msg then
        HTTPException 404 ''User not found''
      else if str_in (cps ''new activity not found'') msg then
        HTTPException 404 ''New Activity not found''
      else if str_in (cps ''old activity not found'') msg then
        HTTPException 404 ''Old Activity not found for this user''
      else if str_in (cps ''activity not found'') msg then
        HTTPException 404 ''Activity not found''
      else if str_in (cps ''activity already exists for this user'') msg then
        HTTPException 409 ''Activity already exists for this user.''
      else if str_in (cps ''old activity not found for this user'') msg then
        HTTPException 409 ''Old activity not found for this user.''
      else if str_in (cps ''email already exists'') msg then
        HTTPException 409 ''Email already exists.''
      else if str_in (cps ''username already exists'') msg then
        HTTPException 409 ''Username already exists''
      else if str_in (cps ''date_of_birth'') msg then
        HTTPException 409 ''Invalid date of birth, must be at least 13 years old.''
      else if str_in (cps ''phone_number'') msg then
        HTTPException 409 ''Invalid phone number format, the number must start with +.''
      else
        HTTPException 500 ''Internal server error'')"

text \<open>
  Two messages differ only in letter case when they have the same length and, position
  by position, the two code points are equal or one is the upper-case or the lower-case
  form of the other. They differ only in the case of ASCII letters when, position by
  position, they are equal or one is a letter A..Z and the other the same letter a..z.
\<close>

definition same_letter ::
  "(nat \<Rightarrow> nat list) \<Rightarrow> (nat \<Rightarrow> nat list) \<Rightarrow> nat \<Rightarrow> nat \<Rightarrow> bool" where
  "same_letter beyond_l beyond_u c d =
     (c = d \<or> upper_cp beyond_u c = [d] \<or> upper_cp beyond_u d = [c]
            \<or> lower_cp beyond_l c = [d] \<or> lower_cp beyond_l d = [c])"

definition case_variant ::
  "(nat \<Rightarrow> nat list) \<Rightarrow> (nat \<Rightarrow> nat list) \<Rightarrow> nat list \<Rightarrow> nat list \<Rightarrow> bool" where
  "case_variant beyond_l beyond_u m m' = list_all2 (same_letter beyond_l beyond_u) m m'"

definition ascii_case_pair :: "nat \<Rightarrow> nat \<Rightarrow> bool" where
  "ascii_case_pair c d =
     (c = d \<or> (65 \<le> c \<and> c \<le> 90 \<and> d = c + 32) \<or> (65 \<le> d \<and> d \<le> 90 \<and> c = d + 32))"

definition ascii_case_variant :: "nat list \<Rightarrow> nat list \<Rightarrow> bool" where
  "ascii_case_variant m m' = list_all2 ascii_case_pair m m'"

section \<open>The tables the properties refer to\<close>

text \<open>The ten substrings \<^verbatim>\<open>validation_checking\<close> tests, in the order it tests them.\<close>

definition needles :: "string list" where
  "needles =
     [''user not found'', ''new activity not found'', ''old activity not found'',
      ''activity not found'', ''activity already exists for this user'',
      ''old activity not found for this user'', ''email already exists'',
      ''username already exists'', ''date_of_birth'', ''phone_number'']"

text \<open>
  The table of status codes and messages as the specification lists it (section 6),
  one pair per error kind.
\<close>

definition error_table :: "(nat \<times> string) list" where
  "error_table =
     [(404, ''User not found''),
      (404, ''New Activity not found''),
      (404, ''Old Activity not found for this user''),
      (404, ''Activity not found''),
      (409, ''Activity already exists for this user.''),
      (409, ''Old activity not found for this user.''),
      (409, ''Email already exists.''),
      (409, ''Username already exists''),
      (409, ''Invalid date of birth, must be at least 13 years old.''),
      (409, ''Invalid phone number format, the number must start with +.''),
      (500, ''Internal server error'')]"

section \<open>Basic facts about strings\<close>

lemma starts_with_prefix: "starts_with n h = prefix n h"
  by (induction n h rule: starts_with.induct) simp_all

lemma str_in_sublist: "str_in n h = sublist n h"
  by (induction h) (simp_all add: starts_with_prefix sublist_Cons_right)

lemma str_in_append_left: "str_in (a @ b) h \<Longrightarrow> str_in a h"
  unfolding str_in_sublist sublist_def by auto

lemma old_activity_shorter:
  "str_in ''old activity not found for this user'' msg \<Longrightarrow>
   str_in ''old activity not found'' msg"
  using str_in_append_left [of "''old activity not found''" "'' for this user''" msg]
  by simp

section \<open>The classifier\<close>

text \<open>
  C1. The specification asks that a message containing
  "old activity not found for this user" (in any letter case) is answered with 409
  "Old activity not found for this user.". The source tests the shorter
  "old activity not found" first: the message "Old activity not found for this user",
  lower-cased as the callers do, contains the long substring and is answered with 404
  "Old Activity not found for this user", not with the 409.
\<close>

theorem old_activity_for_this_user_gets_404:
  "str_in ''old activity not found for this user''
     (lower ''Old activity not found for this user'')
   \<and> validation_checking (lower ''Old activity not found for this user'') =
       HTTPException 404 ''Old Activity not found for this user''
   \<and> validation_checking (lower ''Old activity not found for this user'') \<noteq>
       HTTPException 409 ''Old activity not found for this user.''"
  by code_simp

text \<open>
  C2. For every input string, \<^verbatim>\<open>validation_checking\<close> never raises the 409 with detail
  "Old activity not found for this user.": a string that contains
  "old activity not found for this user" contains "old activity not found" too, and an
  earlier branch answers that one with 404.
\<close>

theorem old_activity_conflict_unreachable:
  "(str_in ''old activity not found for this user'' msg \<longrightarrow>
      str_in ''old activity not found'' msg)
   \<and> \<not> (status_code (validation_checking msg) = 409 \<and>
          detail (validation_checking msg) = ''Old activity not found for this user.'')"
  using old_activity_shorter [of msg]
  by (simp add: validation_checking_def HTTPException_def)

theorem old_activity_conflict_unreachable_witness:
  "str_in ''old activity not found for this user'' ''old activity not found for this user''
   \<and> str_in ''old activity not found'' ''old activity not found for this user''
   \<and> \<not> (status_code (validation_checking ''old activity not found for this user'') = 409 \<and>
          detail (validation_checking ''old activity not found for this user'') =
            ''Old activity not found for this user.'')"
  using old_activity_conflict_unreachable [of "''old activity not found for this user''"]
  by simp

text \<open>
  C5. The classifier is total and its answers are fixed: for every message the exception
  raised has a status code and a detail that form one of the eleven pairs of the table;
  a message that contains none of the tested substrings gets 500 "Internal server error";
  and the answer is determined by which of the substrings the message contains, so that
  no text of the message itself reaches the detail.
\<close>

theorem validation_checking_fixed_answers:
  "(status_code (validation_checking msg), detail (validation_checking msg)) \<in> set error_table
   \<and> (list_all (\<lambda>n. \<not> str_in n msg) needles \<longrightarrow>
        validation_checking msg = HTTPException 500 ''Internal server error'')
   \<and> (list_all (\<lambda>n. str_in n msg = str_in n msg') needles \<longrightarrow>
        validation_checking msg = validation_checking msg')"
  by (simp add: validation_checking_def HTTPException_def error_table_def needles_def)

theorem validation_checking_fixed_answers_witness:
  "list_all (\<lambda>n. \<not> str_in n ''deadlock victim'') needles
   \<and> list_all (\<lambda>n. str_in n ''deadlock victim'' = str_in n ''timeout expired'') needles
   \<and> (status_code (validation_checking ''deadlock victim''),
       detail (validation_checking ''deadlock victim'')) \<in> set error_table
   \<and> validation_checking ''deadlock victim'' = HTTPException 500 ''Internal server error''
   \<and> validation_checking ''deadlock victim'' = validation_checking ''timeout expired''"
proof -
  have h1: "list_all (\<lambda>n. \<not> str_in n ''deadlock victim'') needles"
    by (simp add: needles_def)
  have h2: "list_all (\<lambda>n. str_in n ''deadlock victim'' = str_in n ''timeout expired'') needles"
    by (simp add: needles_def)
  from h1 h2 validation_checking_fixed_answers [of "''deadlock victim''" "''timeout expired''"]
  show ?thesis by blast
qed

section \<open>The credential verifier\<close>

lemma two_elems:
  "2 \<le> length xs \<and> xs ! 0 = a \<and> xs ! 1 = b \<longleftrightarrow> (\<exists>rest. xs = a # b # rest)"
  by (cases xs; cases "tl xs") auto

lemma verify_list:
  "verify_credentials f c (Response 200 (Parsed (JList xs))) =
      (if \<exists>rest. xs = JStr ''Verified'' # JStr ''True'' # rest
       then Returns \<lparr>email = username c, authenticated = True\<rparr>
       else RaisesHTTP (unauthorized ''Invalid credentials''))"
  using two_elems [of xs "JStr ''Verified''" "JStr ''True''"]
  by (auto simp add: verify_credentials_def)

lemma verify_non_list:
  assumes "\<forall>xs. j \<noteq> JList xs"
  shows "verify_credentials f c (Response 200 (Parsed j)) =
       RaisesHTTP (unauthorized ''Invalid credentials'')"
  using assms by (cases j) (auto simp add: verify_credentials_def)

lemma verify_parsed:
  "verify_credentials f c (Response 200 (Parsed j)) =
      (if \<exists>rest. j = JList (JStr ''Verified'' # JStr ''True'' # rest)
       then Returns \<lparr>email = username c, authenticated = True\<rparr>
       else RaisesHTTP (unauthorized ''Invalid credentials''))"
proof (cases "\<exists>xs. j = JList xs")
  case True
  then obtain xs where "j = JList xs" by blast
  then show ?thesis using verify_list [of f c xs] by simp
next
  case False
  then have "\<forall>xs. j \<noteq> JList xs" by blast
  from verify_non_list [OF this] False show ?thesis by auto
qed

lemma verify_returns_only_200_parsed:
  assumes "verify_credentials f c reply = Returns p"
  shows "\<exists>j. reply = Response 200 (Parsed j)"
proof (cases reply)
  case TransportFailure
  with assms show ?thesis by (simp add: verify_credentials_def)
next
  case (Response code b)
  with assms show ?thesis
    by (cases b) (auto simp add: verify_credentials_def split: if_splits)
qed

text \<open>
  C3, as the specification states it: the verifier succeeds exactly when the body of the
  200 response equals the two-element list ["Verified", "True"], and every other 200 body,
  an unparseable one included, is answered with 401. The source tests
  \<^verbatim>\<open>len(result) >= 2\<close>: a three-element list that starts with "Verified", "True" is
  accepted. An unparseable body is not answered with 401 either: \<^verbatim>\<open>response.json()\<close>
  raises, and the error is answered with 503 when the handler of the source catches it
  and leaves the function uncaught when not.
\<close>

theorem verify_credentials_three_element_body:
  "verify_credentials True \<lparr>username = ''grace@plymouth.ac.uk'', password = ''ISAD123!''\<rparr>
     (Response 200 (Parsed (JList [JStr ''Verified'', JStr ''True'', JStr ''extra'']))) =
     Returns \<lparr>email = ''grace@plymouth.ac.uk'', authenticated = True\<rparr>
   \<and> JList [JStr ''Verified'', JStr ''True'', JStr ''extra''] \<noteq>
       JList [JStr ''Verified'', JStr ''True'']
   \<and> verify_credentials True \<lparr>username = ''grace@plymouth.ac.uk'', password = ''ISAD123!''\<rparr>
       (Response 200 Unparseable) =
       RaisesHTTP \<lparr>status_code = 503, detail = ''Authentication service unavailable'',
                   headers = []\<rparr>
   \<and> verify_credentials False \<lparr>username = ''grace@plymouth.ac.uk'', password = ''ISAD123!''\<rparr>
       (Response 200 Unparseable) = RaisesOther JSONDecodeError"
  by (simp add: verify_credentials_def HTTPException_def)

text \<open>
  C3, amended: the verifier succeeds exactly when the endpoint answers 200 with a body
  that parses to a list of at least two elements whose first two elements are
  "Verified" and "True"; every other 200 body that parses (a shorter list, other
  elements, a value that is not a list) is answered with 401 "Invalid credentials".
\<close>

theorem verify_credentials_success_iff:
  "((\<exists>p. verify_credentials f c reply = Returns p) \<longleftrightarrow>
      (\<exists>rest. reply =
         Response 200 (Parsed (JList (JStr ''Verified'' # JStr ''True'' # rest)))))
   \<and> ((\<exists>rest. j = JList (JStr ''Verified'' # JStr ''True'' # rest)) \<longrightarrow>
        verify_credentials f c (Response 200 (Parsed j)) =
          Returns \<lparr>email = username c, authenticated = True\<rparr>)
   \<and> (\<not> (\<exists>rest. j = JList (JStr ''Verified'' # JStr ''True'' # rest)) \<longrightarrow>
        verify_credentials f c (Response 200 (Parsed j)) =
          RaisesHTTP \<lparr>status_code = 401, detail = ''Invalid credentials'',
                      headers = [(''WWW-Authenticate'', ''Basic'')]\<rparr>)"
proof -
  have p1: "(\<exists>p. verify_credentials f c reply = Returns p) \<longleftrightarrow>
      (\<exists>rest. reply =
         Response 200 (Parsed (JList (JStr ''Verified'' # JStr ''True'' # rest))))"
  proof
    assume "\<exists>p. verify_credentials f c reply = Returns p"
    then obtain p where p: "verify_credentials f c reply = Returns p" by blast
    from verify_returns_only_200_parsed [OF p]
    obtain r where r: "reply = Response 200 (Parsed r)" by blast
    from p r verify_parsed [of f c r]
    show "\<exists>rest. reply =
            Response 200 (Parsed (JList (JStr ''Verified'' # JStr ''True'' # rest)))"
      by (auto split: if_splits)
  next
    assume "\<exists>rest. reply =
              Response 200 (Parsed (JList (JStr ''Verified'' # JStr ''True'' # rest)))"
    then obtain rest where
      "reply = Response 200 (Parsed (JList (JStr ''Verified'' # JStr ''True'' # rest)))"
      by blast
    then show "\<exists>p. verify_credentials f c reply = Returns p"
      using verify_parsed [of f c "JList (JStr ''Verified'' # JStr ''True'' # rest)"] by simp
  qed
  from p1 verify_parsed [of f c j] show ?thesis
    by (simp add: unauthorized_def)
qed

theorem verify_credentials_success_iff_witness:
  "(\<exists>rest. JList [JStr ''Verified'', JStr ''True''] =
            JList (JStr ''Verified'' # JStr ''True'' # rest))
   \<and> \<not> (\<exists>rest. JList [JStr ''Verified''] = JList (JStr ''Verified'' # JStr ''True'' # rest))
   \<and> verify_credentials True
        \<lparr>username = ''ada@plymouth.ac.uk'', password = ''insecurePassword''\<rparr>
        (Response 200 (Parsed (JList [JStr ''Verified'', JStr ''True'']))) =
          Returns \<lparr>email = ''ada@plymouth.ac.uk'', authenticated = True\<rparr>
   \<and> verify_credentials True
        \<lparr>username = ''ada@plymouth.ac.uk'', password = ''insecurePassword''\<rparr>
        (Response 200 (Parsed (JList [JStr ''Verified'']))) =
          RaisesHTTP \<lparr>status_code = 401, detail = ''Invalid credentials'',
                      headers = [(''WWW-Authenticate'', ''Basic'')]\<rparr>"
  using verify_credentials_success_iff
          [of True "\<lparr>username = ''ada@plymouth.ac.uk'', password = ''insecurePassword''\<rparr>"
              "Response 200 (Parsed (JList [JStr ''Verified'', JStr ''True'']))"
              "JList [JStr ''Verified'', JStr ''True'']"]
        verify_credentials_success_iff
          [of True "\<lparr>username = ''ada@plymouth.ac.uk'', password = ''insecurePassword''\<rparr>"
              "Response 200 (Parsed (JList [JStr ''Verified'']))"
              "JList [JStr ''Verified'']"]
  by simp

text \<open>
  C4. A transport-level failure of the outbound call (timeout, connection error) is
  answered with 503 "Authentication service unavailable", not with 401; a response with
  any status other than 200 is answered with 401 "Authentication failed".
\<close>

theorem verify_credentials_transport_and_status:
  "verify_credentials f c TransportFailure =
     RaisesHTTP \<lparr>status_code = 503, detail = ''Authentication service unavailable'',
                 headers = []\<rparr>
   \<and> (code \<noteq> 200 \<longrightarrow>
        verify_credentials f c (Response code b) =
          RaisesHTTP \<lparr>status_code = 401, detail = ''Authentication failed'',
                      headers = [(''WWW-Authenticate'', ''Basic'')]\<rparr>)"
  by (simp add: verify_credentials_def HTTPException_def unauthorized_def)

theorem verify_credentials_transport_and_status_witness:
  "(500::nat) \<noteq> 200
   \<and> verify_credentials True \<lparr>username = ''tim@plymouth.ac.uk'', password = ''COMP2001!''\<rparr>
       TransportFailure =
       RaisesHTTP \<lparr>status_code = 503, detail = ''Authentication service unavailable'',
                   headers = []\<rparr>
   \<and> verify_credentials True \<lparr>username = ''tim@plymouth.ac.uk'', password = ''COMP2001!''\<rparr>
       (Response 500 Unparseable) =
       RaisesHTTP \<lparr>status_code = 401, detail = ''Authentication failed'',
                   headers = [(''WWW-Authenticate'', ''Basic'')]\<rparr>"
  using verify_credentials_transport_and_status
          [of True "\<lparr>username = ''tim@plymouth.ac.uk'', password = ''COMP2001!''\<rparr>"
              500 Unparseable]
  by simp

section \<open>Facts about the endpoints\<close>


lemmas handler_defs = create_user_def read_user_def update_user_def
  create_user_preferences_def update_user_preferences_def delete_user_def

section \<open>The narrow classification of read and delete\<close>



section \<open>Authentication before any backend call\<close>

text \<open>
  C7. For every endpoint, when \<^verbatim>\<open>verify_credentials\<close> fails, with 401 or with 503, the
  request ends with that failure and no call on the database is made: no connection is
  opened and no stored procedure is invoked.
\<close>

theorem auth_failure_no_backend_call:
  "(verify_credentials f c reply = RaisesHTTP e \<longrightarrow>
      endpoint f c reply req env = (RaisesHTTP e, []) \<and>
      (status_code e = 401 \<or> status_code e = 503))
   \<and> (verify_credentials f c reply = RaisesOther x \<longrightarrow>
      endpoint f c reply req env = (RaisesOther x, []))"
proof -
  have "status_code e = 401 \<or> status_code e = 503"
    if "verify_credentials f c reply = RaisesHTTP e"
    using that
    by (auto simp add: verify_credentials_def HTTPException_def unauthorized_def
          split: auth_reply.splits body.splits json.splits if_splits)
  then show ?thesis by (auto simp add: endpoint_def then_do_def)
qed

theorem auth_failure_no_backend_call_witness:
  "verify_credentials True \<lparr>username = ''grace@plymouth.ac.uk'', password = ''wrong''\<rparr>
     (Response 200 (Parsed (JList [JStr ''Verified'', JStr ''False'']))) =
     RaisesHTTP (unauthorized ''Invalid credentials'')
   \<and> verify_credentials False \<lparr>username = ''grace@plymouth.ac.uk'', password = ''wrong''\<rparr>
     (Response 200 Unparseable) = RaisesOther JSONDecodeError
   \<and> endpoint True \<lparr>username = ''grace@plymouth.ac.uk'', password = ''wrong''\<rparr>
       (Response 200 (Parsed (JList [JStr ''Verified'', JStr ''False''])))
       (DeleteUser 1)
       \<lparr>connect_fails = False, execute_error = None, fetchone_result = FetchNone,
         description = []\<rparr> =
       (RaisesHTTP (unauthorized ''Invalid credentials''), [])
   \<and> endpoint False \<lparr>username = ''grace@plymouth.ac.uk'', password = ''wrong''\<rparr>
       (Response 200 Unparseable)
       (DeleteUser 1)
       \<lparr>connect_fails = False, execute_error = None, fetchone_result = FetchNone,
         description = []\<rparr> =
       (RaisesOther JSONDecodeError, [])"
proof -
  have a: "verify_credentials True \<lparr>username = ''grace@plymouth.ac.uk'', password = ''wrong''\<rparr>
     (Response 200 (Parsed (JList [JStr ''Verified'', JStr ''False'']))) =
     RaisesHTTP (unauthorized ''Invalid credentials'')"
    by (simp add: verify_credentials_def)
  have b: "verify_credentials False \<lparr>username = ''grace@plymouth.ac.uk'', password = ''wrong''\<rparr>
     (Response 200 Unparseable) = RaisesOther JSONDecodeError"
    by (simp add: verify_credentials_def)
  from a b
    auth_failure_no_backend_call [of True "\<lparr>username = ''grace@plymouth.ac.uk'', password = ''wrong''\<rparr>"
           "Response 200 (Parsed (JList [JStr ''Verified'', JStr ''False'']))"
           "unauthorized ''Invalid credentials''" "DeleteUser 1"
           "\<lparr>connect_fails = False, execute_error = None, fetchone_result = FetchNone,
             description = []\<rparr>"]
    auth_failure_no_backend_call [of False "\<lparr>username = ''grace@plymouth.ac.uk'', password = ''wrong''\<rparr>"
           "Response 200 Unparseable" _ "DeleteUser 1"
           "\<lparr>connect_fails = False, execute_error = None, fetchone_result = FetchNone,
             description = []\<rparr>" JSONDecodeError]
  show ?thesis by blast
qed

section \<open>Case-insensitive classification\<close>

lemma starts_with_map_inj: "inj f \<Longrightarrow> starts_with (map f n) (map f h) = starts_with n h"
  by (induction n h rule: starts_with.induct) (auto dest: injD)

lemma str_in_map_inj: "inj f \<Longrightarrow> str_in (map f n) (map f h) = str_in n h"
proof (induction h)
  case Nil
  then show ?case by simp
next
  case (Cons a h)
  from Cons.prems starts_with_map_inj [of f n "a # h"]
  have "starts_with (map f n) (f a # map f h) = starts_with n (a # h)" by simp
  with Cons show ?case by simp
qed

lemma inj_of_char_nat: "inj (of_char :: char \<Rightarrow> nat)"
  by (rule injI) simp

lemma str_in_cps: "str_in (cps n) (cps h) = str_in n h"
  unfolding cps_def by (rule str_in_map_inj [OF inj_of_char_nat])

lemma validation_checking_u_cps: "validation_checking_u (cps s) = validation_checking s"
  by (simp add: validation_checking_u_def validation_checking_def str_in_cps)

lemma latin_lower_8bit:
  assumes "n < 256"
  shows "latin_lower n =
     (if (65 \<le> n \<and> n \<le> 90) \<or> (192 \<le> n \<and> n \<le> 214) \<or> (216 \<le> n \<and> n \<le> 222)
      then [n + 32] else [n])"
proof (cases "(65 \<le> n \<and> n \<le> 90) \<or> (192 \<le> n \<and> n \<le> 214) \<or> (216 \<le> n \<and> n \<le> 222)")
  case True
  then show ?thesis unfolding latin_lower_def by (simp only: if_True)
next
  case False
  from assms have a: "n \<noteq> 304" "n \<noteq> 376" "\<not> 256 \<le> n" "\<not> 330 \<le> n" "\<not> 313 \<le> n" "\<not> 377 \<le> n"
    by linarith+
  from False a show ?thesis unfolding latin_lower_def by (simp only: if_False simp_thms)
qed

lemma lower_cp_of_char: "lower_cp beyond (of_char c) = [of_char (lower_char c)]"
proof -
  define n where "n = (of_char c :: nat)"
  have lt: "n < 256" by (simp add: n_def)
  then have lt': "n < 384" by linarith
  have up: "is_upper c \<longleftrightarrow>
      (65 \<le> n \<and> n \<le> 90) \<or> (192 \<le> n \<and> n \<le> 214) \<or> (216 \<le> n \<and> n \<le> 222)"
    by (simp add: is_upper_def n_def Let_def)
  show ?thesis
  proof (cases "is_upper c")
    case True
    with up have "n + 32 < 256" by linarith
    then have "(of_char (char_of (n + 32)) :: nat) = n + 32" by simp
    with True have r: "(of_char (lower_char c) :: nat) = n + 32"
      by (simp add: lower_char_def n_def)
    from True up latin_lower_8bit [OF lt] have "latin_lower n = [n + 32]" by simp
    with r lt' show ?thesis by (simp add: lower_cp_def n_def)
  next
    case False
    then have r: "(of_char (lower_char c) :: nat) = n"
      by (simp add: lower_char_def n_def)
    from False up latin_lower_8bit [OF lt] have "latin_lower n = [n]" by simp
    with r lt' show ?thesis by (simp add: lower_cp_def n_def)
  qed
qed

lemma lower_u_cps: "lower_u beyond (cps s) = cps (lower s)"
  by (induction s) (simp_all add: lower_u_def cps_def lower_def lower_cp_of_char)

lemma latin_lower_capital: "65 \<le> c \<Longrightarrow> c \<le> 90 \<Longrightarrow> latin_lower c = [c + 32]"
  unfolding latin_lower_def by simp




lemma ascii_pair_same_letter:
  assumes "ascii_case_pair c d"
  shows "same_letter bl bu c d"
proof -
  from assms consider "c = d" | "65 \<le> c \<and> c \<le> 90 \<and> d = c + 32" | "65 \<le> d \<and> d \<le> 90 \<and> c = d + 32"
    unfolding ascii_case_pair_def by blast
  then show ?thesis
  proof cases
    case 1
    then show ?thesis by (simp add: same_letter_def)
  next
    case 2
    then have "latin_lower c = [d]" using latin_lower_capital [of c] by simp
    moreover from 2 have "c < 384" by linarith
    ultimately have "lower_cp bl c = [d]" by (simp add: lower_cp_def)
    then show ?thesis by (simp add: same_letter_def)
  next
    case 3
    then have "latin_lower d = [c]" using latin_lower_capital [of d] by simp
    moreover from 3 have "d < 384" by linarith
    ultimately have "lower_cp bl d = [c]" by (simp add: lower_cp_def)
    then show ?thesis by (simp add: same_letter_def)
  qed
qed

lemma ascii_variant_case_variant:
  assumes "ascii_case_variant m m'"
  shows "case_variant bl bu m m'"
proof -
  from assms have "list_all2 ascii_case_pair m m'" by (simp add: ascii_case_variant_def)
  then have "list_all2 (same_letter bl bu) m m'"
    by (rule list_all2_mono) (rule ascii_pair_same_letter)
  then show ?thesis by (simp add: case_variant_def)
qed




section \<open>Release of the cursor and the connection\<close>

lemmas full_defs = create_user_full_def read_user_full_def update_user_full_def
  create_user_preferences_full_def update_user_preferences_full_def delete_user_full_def
  call_may_raise_def close_all_full_def

lemma handler_full_no_faults: "handler_full no_faults req p env = handler req p env"
  by (cases req) (simp_all add: full_defs handler_defs no_faults_def call_def close_all_def)

lemma endpoint_full_no_faults: "endpoint_full no_faults f c reply req env = endpoint f c reply req env"
  by (simp add: endpoint_full_def endpoint_def handler_full_no_faults)




section \<open>Reading a user that has no row\<close>



end
